theory Spec2Isabelle
  imports Complex_Main
begin

section \<open>Python values\<close>

subsection \<open>Exceptions\<close>

text \<open>
  The exceptions that the two modules can raise by themselves. A call that raises is a
  value \<open>Inl e\<close> of a sum type; a call that returns \<open>v\<close> is \<open>Inr v\<close>.
\<close>

datatype error = TypeError | ValueError | IndexError | AttributeError | ZeroDivisionError

subsection \<open>Floats\<close>

text \<open>
  A Python \<open>float\<close> is an IEEE 754 binary64 value. \<open>Finite s m x\<close> is the number
  \<open>(-1)\<^sup>s * m * 2\<^sup>x\<close> in the format's canonical form: \<open>2\<^sup>5\<^sup>2 \<le> m < 2\<^sup>5\<^sup>3\<close> and
  \<open>-1074 \<le> x \<le> 971\<close> for a normal number, \<open>0 < m < 2\<^sup>5\<^sup>2\<close> and \<open>x = -1074\<close> for a
  subnormal one. The sign \<open>True\<close> is the negative one. Every operation rounds its exact
  result to the nearest representable value, ties to the even significand.
\<close>

datatype pyfloat = NaN | Infinity bool | Zero bool | Finite bool int int

text \<open>\<open>ilog2 n\<close> is the position of the leading bit of a positive \<open>n\<close>.\<close>

function ilog2 :: "int \<Rightarrow> int" where
  "ilog2 n = (if n < 2 then 0 else 1 + ilog2 (n div 2))"
  by pat_completeness auto
termination
  by (relation "measure nat") auto

declare ilog2.simps [simp del]

text \<open>The fraction \<open>num / den\<close> times \<open>2\<^sup>t\<close>, again as a fraction.\<close>

definition shift2 :: "int \<Rightarrow> int \<Rightarrow> int \<Rightarrow> int \<times> int" where
  "shift2 num den t =
     (if 0 \<le> t then (num * 2 ^ nat t, den) else (num, den * 2 ^ nat (- t)))"

text \<open>The binary exponent of a positive fraction: the \<open>e\<close> with \<open>2\<^sup>e \<le> num / den < 2\<^sup>e\<^sup>+\<^sup>1\<close>.\<close>

definition flog2 :: "int \<Rightarrow> int \<Rightarrow> int" where
  "flog2 num den =
     (let e0 = ilog2 num - ilog2 den;
          (n', d') = shift2 num den (- e0)
      in if d' \<le> n' then e0 else e0 - 1)"

definition round_half_even :: "int \<Rightarrow> int \<Rightarrow> int" where
  "round_half_even num den =
     (let n = num div den; r = num mod den
      in if 2 * r < den then n
         else if den < 2 * r then n + 1
         else if n mod 2 = 0 then n else n + 1)"

text \<open>
  \<open>round_double neg num den x\<close> rounds the exact magnitude \<open>num / den * 2\<^sup>x\<close> (with
  \<open>num\<close> and \<open>den\<close> positive) to binary64: 53 significant bits above the exponent
  \<open>-1022\<close>, the fixed quantum \<open>2\<^sup>-\<^sup>1\<^sup>0\<^sup>7\<^sup>4\<close> below it, infinity beyond the largest finite value.
\<close>

definition round_double :: "bool \<Rightarrow> int \<Rightarrow> int \<Rightarrow> int \<Rightarrow> pyfloat" where
  "round_double neg num den x =
     (let e = max (flog2 num den + x) (- 1022);
          (n', d') = shift2 num den (x + 52 - e);
          n = round_half_even n' d';
          (m, e') = (if n = 2 ^ 53 then (2 ^ 52, e + 1) else (n, e))
      in if 1023 < e' then Infinity neg
         else if m = 0 then Zero neg
         else Finite neg m (e' - 52))"

text \<open>The float nearest to a rational number.\<close>

definition float_of :: "rat \<Rightarrow> pyfloat" where
  "float_of r =
     (let (a, b) = quotient_of r
      in if a = 0 then Zero False else round_double (a < 0) \<bar>a\<bar> b 0)"

text \<open>
  The float that a decimal literal denotes: \<open>decimal d k\<close> is the literal with the
  digits \<open>d\<close> and \<open>k\<close> of them after the point, so \<open>0.4\<close> is \<open>decimal 4 1\<close>, \<open>0.25\<close>
  is \<open>decimal 25 2\<close> and \<open>1000.0\<close> is \<open>decimal 1000 0\<close>.
\<close>

definition decimal :: "int \<Rightarrow> int \<Rightarrow> pyfloat" where
  "decimal d k = float_of (of_int d / 10 ^ nat k)"

fun fsign :: "pyfloat \<Rightarrow> bool" where
  "fsign NaN = False"
| "fsign (Infinity s) = s"
| "fsign (Zero s) = s"
| "fsign (Finite s m x) = s"

text \<open>Unary minus.\<close>

fun fneg :: "pyfloat \<Rightarrow> pyfloat" where
  "fneg NaN = NaN"
| "fneg (Infinity s) = Infinity (\<not> s)"
| "fneg (Zero s) = Zero (\<not> s)"
| "fneg (Finite s m x) = Finite (\<not> s) m x"

text \<open>The operator \<open>*\<close> on two floats.\<close>

fun fmul :: "pyfloat \<Rightarrow> pyfloat \<Rightarrow> pyfloat" where
  "fmul NaN b = NaN"
| "fmul a NaN = NaN"
| "fmul (Infinity s) (Zero t) = NaN"
| "fmul (Zero s) (Infinity t) = NaN"
| "fmul (Infinity s) b = Infinity (s \<noteq> fsign b)"
| "fmul a (Infinity t) = Infinity (fsign a \<noteq> t)"
| "fmul (Zero s) b = Zero (s \<noteq> fsign b)"
| "fmul a (Zero t) = Zero (fsign a \<noteq> t)"
| "fmul (Finite s m x) (Finite t n y) = round_double (s \<noteq> t) (m * n) 1 (x + y)"

text \<open>The operator \<open>/\<close> on two floats: a zero divisor raises, whatever the dividend.\<close>

fun fdiv :: "pyfloat \<Rightarrow> pyfloat \<Rightarrow> error + pyfloat" where
  "fdiv a (Zero t) = Inl ZeroDivisionError"
| "fdiv NaN b = Inr NaN"
| "fdiv a NaN = Inr NaN"
| "fdiv (Infinity s) (Infinity t) = Inr NaN"
| "fdiv (Infinity s) (Finite t n y) = Inr (Infinity (s \<noteq> t))"
| "fdiv (Zero s) b = Inr (Zero (s \<noteq> fsign b))"
| "fdiv (Finite s m x) (Infinity t) = Inr (Zero (s \<noteq> t))"
| "fdiv (Finite s m x) (Finite t n y) = Inr (round_double (s \<noteq> t) m n (x - y))"

text \<open>\<open>np.zeros(n)\<close>: an array of \<open>n\<close> positive zeros.\<close>

definition np_zeros :: "nat \<Rightarrow> pyfloat list" where
  "np_zeros n = replicate n (Zero False)"

subsection \<open>Objects and keyword arguments\<close>

text \<open>The values that a keyword argument or a configuration field can hold.\<close>

datatype pyval =
    PyNone
  | PyBool bool
  | PyInt int
  | PyFloat pyfloat
  | PyStr string
  | PyTuple "pyval list"

text \<open>
  A dictionary of keyword arguments is the list of its items. A call
  \<open>f(a=u, b=v, **kw)\<close> raises \<open>TypeError\<close> when \<open>kw\<close> has one of the keywords written
  out in the call: a keyword argument cannot be given twice.
\<close>

type_synonym kwargs = "(string \<times> pyval) list"

definition keyword_clash :: "string list \<Rightarrow> kwargs \<Rightarrow> bool" where
  "keyword_clash explicit kw = list_ex (\<lambda>k. k \<in> set explicit) (map fst kw)"

text \<open>\<open>os.path.join\<close> of two components, with the separator \<open>/\<close>.\<close>

definition path_join :: "string \<Rightarrow> string \<Rightarrow> string" where
  "path_join a b =
     (if b \<noteq> [] \<and> hd b = CHR ''/'' then b
      else if a = [] \<or> last a = CHR ''/'' then a @ b
      else a @ ''/'' @ b)"

section \<open>The sky light of a scenario (assets/light/sky.py)\<close>

text \<open>
  Modelled from the spec: the enumeration \<open>env_utils.Scenario\<close> is declared outside the
  two source files. The spec gives it as a closed set of tags of which \<open>EARTH\<close>, \<open>MARS\<close>
  and \<open>ORBIT\<close> are named; \<open>OtherScenario name\<close> is any further member.
\<close>

datatype Scenario = EARTH | MARS | ORBIT | OtherScenario string

record EnvironmentConfig =
  scenario :: Scenario

text \<open>
  What the module imports and does not define: the two asset roots, and the property
  \<open>light_intensity\<close> of a scenario.
\<close>

record Externals =
  ISAAC_NUCLEUS_DIR :: string
  SRB_ASSETS_DIR_SRB_HDRI :: string
  light_intensity :: "Scenario \<Rightarrow> pyfloat"

text \<open>
  Modelled from the spec: the configuration classes \<open>DomeLightCfg\<close> and \<open>AssetBaseCfg\<close>
  are declared outside the two source files. An instance holds the keyword arguments it
  was built from: the ones that \<open>sky_from_env_cfg\<close> writes out, and the caller's further
  ones as they were given.
\<close>

record DomeLightCfg =
  intensity :: pyfloat
  texture_file :: pyval
  spawn_params :: kwargs

record AssetBaseCfg =
  prim_path :: string
  spawn :: DomeLightCfg
  params :: kwargs

text \<open>\<open>DomeLightCfg(intensity=i, texture_file=t, **spawn_kwargs)\<close>\<close>

definition new_DomeLightCfg :: "pyfloat \<Rightarrow> pyval \<Rightarrow> kwargs \<Rightarrow> error + DomeLightCfg" where
  "new_DomeLightCfg i t spawn_kwargs =
     (if keyword_clash [''intensity'', ''texture_file''] spawn_kwargs then Inl TypeError
      else Inr \<lparr>intensity = i, texture_file = t, spawn_params = spawn_kwargs\<rparr>)"

text \<open>\<open>AssetBaseCfg(prim_path=p, spawn=l, **kwargs)\<close>\<close>

definition new_AssetBaseCfg :: "string \<Rightarrow> DomeLightCfg \<Rightarrow> kwargs \<Rightarrow> error + AssetBaseCfg" where
  "new_AssetBaseCfg p l kw =
     (if keyword_clash [''prim_path'', ''spawn''] kw then Inl TypeError
      else Inr \<lparr>prim_path = p, spawn = l, params = kw\<rparr>)"

text \<open>
  The \<open>match\<close> statement. The \<open>EARTH\<close> branch assigns a parenthesised expression that
  ends in a comma, which is a tuple of one string; the other two branches assign a string.
\<close>

definition select_texture_file :: "Externals \<Rightarrow> Scenario \<Rightarrow> pyval option" where
  "select_texture_file ext sc =
     (case sc of
        EARTH \<Rightarrow>
          Some (PyTuple [PyStr (ISAAC_NUCLEUS_DIR ext @
            ''/Materials/Textures/Skies/PolyHaven/kloofendal_43d_clear_puresky_4k.hdr'')])
      | MARS \<Rightarrow> Some (PyStr (path_join (SRB_ASSETS_DIR_SRB_HDRI ext) ''martian_sky_day.hdr''))
      | ORBIT \<Rightarrow> Some (PyStr (path_join (SRB_ASSETS_DIR_SRB_HDRI ext) ''low_lunar_orbit.jpg''))
      | OtherScenario name \<Rightarrow> None)"

definition sky_from_env_cfg ::
  "Externals \<Rightarrow> EnvironmentConfig \<Rightarrow> string \<Rightarrow> kwargs \<Rightarrow> kwargs \<Rightarrow> error + AssetBaseCfg option"
where
  "sky_from_env_cfg ext env_cfg prim_path_arg spawn_kwargs kw =
     (case select_texture_file ext (scenario env_cfg) of
        None \<Rightarrow> Inr None
      | Some t \<Rightarrow>
          (case new_DomeLightCfg
                  (fmul (decimal 25 2) (light_intensity ext (scenario env_cfg)))
                  t spawn_kwargs of
             Inl e \<Rightarrow> Inl e
           | Inr l \<Rightarrow>
               (case new_AssetBaseCfg prim_path_arg l kw of
                  Inl e \<Rightarrow> Inl e
                | Inr a \<Rightarrow> Inr (Some a))))"

text \<open>The default of the parameter \<open>prim_path\<close>; the other two defaults are empty.\<close>

definition default_prim_path :: string where
  "default_prim_path = ''/World/sky''"

text \<open>
  Values for the imported names, for evaluating the function on concrete calls: a
  server path, a local directory, and the same intensity \<open>1000.0\<close> for every scenario.
\<close>

definition sample_externals :: Externals where
  "sample_externals =
     \<lparr>ISAAC_NUCLEUS_DIR = ''omniverse://localhost/NVIDIA/Assets/Isaac/4.2/Isaac'',
      SRB_ASSETS_DIR_SRB_HDRI = ''/opt/srb/assets/srb/hdri'',
      light_intensity = (\<lambda>sc. decimal 1000 0)\<rparr>"

section \<open>The SpaceMouse adapter (core/teleop_devices/se3_spacemouse.py)\<close>

text \<open>The six axes of the driver's state that the adapter reads.\<close>

record SpaceNavigator =
  state_x :: pyfloat
  state_y :: pyfloat
  state_z :: pyfloat
  state_roll :: pyfloat
  state_pitch :: pyfloat
  state_yaw :: pyfloat

text \<open>The background thread as the constructor leaves it.\<close>

record Thread =
  target :: string
  daemon :: bool
  started :: bool

text \<open>
  A registered callback takes no argument; it is its effect on the surroundings of the
  adapter, of type \<open>'w\<close>. The attribute \<open>_thread\<close> exists only once it has been
  assigned: \<open>None\<close> is the object without that attribute.
\<close>

record 'w Se3SpaceMouse =
  pos_sensitivity :: pyfloat
  rot_sensitivity :: pyfloat
  sleep_rate :: pyfloat
  close_gripper :: bool
  delta_pos :: "pyfloat list"
  delta_rot :: "pyfloat list"
  additional_callbacks :: "string \<rightharpoonup> ('w \<Rightarrow> 'w)"
  thread :: "Thread option"

text \<open>What \<open>pyspacemouse.open\<close> does: it returns a value that is true or not, or it raises.\<close>

datatype open_outcome = OpenReturns bool | OpenRaises string

definition open_failed_message :: string where
  "open_failed_message = ''[ERROR] Failed to open a SpaceMouse device. Is it connected?''"

text \<open>
  The constructor, with the lines it prints to \<open>sys.stderr\<close>. The division \<open>1.0 / rate\<close>
  comes before the device is opened.
\<close>

definition Se3SpaceMouse_init ::
  "pyfloat \<Rightarrow> pyfloat \<Rightarrow> pyfloat \<Rightarrow> open_outcome \<Rightarrow> error + ('w Se3SpaceMouse \<times> string list)"
where
  "Se3SpaceMouse_init pos rot rate opened =
     (case fdiv (decimal 1 0) rate of
        Inl e \<Rightarrow> Inl e
      | Inr sr \<Rightarrow>
          (let self = \<lparr>pos_sensitivity = pos, rot_sensitivity = rot, sleep_rate = sr,
                       close_gripper = False, delta_pos = np_zeros 3, delta_rot = np_zeros 3,
                       additional_callbacks = Map.empty, thread = None\<rparr>
           in case opened of
                OpenReturns success \<Rightarrow>
                  if success
                  then Inr (self\<lparr>thread :=
                              Some \<lparr>target = ''_run_device'', daemon = True, started = True\<rparr>\<rparr>, [])
                  else Inr (self, [open_failed_message])
              | OpenRaises e \<Rightarrow> Inr (self, [open_failed_message @ [CHR 0x0A] @ e])))"

definition default_pos_sensitivity :: pyfloat where
  "default_pos_sensitivity = decimal 4 1"

definition default_rot_sensitivity :: pyfloat where
  "default_rot_sensitivity = decimal 8 1"

definition default_rate :: pyfloat where
  "default_rate = decimal 1000 0"

text \<open>
  \<open>__del__\<close>: reading the attribute \<open>_thread\<close> raises when it was never assigned;
  otherwise control reaches \<open>join\<close> of that thread, which is the result \<open>Inr\<close>.
\<close>

definition Se3SpaceMouse_del :: "'w Se3SpaceMouse \<Rightarrow> error + Thread" where
  "Se3SpaceMouse_del self =
     (case thread self of None \<Rightarrow> Inl AttributeError | Some t \<Rightarrow> Inr t)"

definition reset :: "'w Se3SpaceMouse \<Rightarrow> 'w Se3SpaceMouse" where
  "reset self = self\<lparr>close_gripper := False, delta_pos := np_zeros 3, delta_rot := np_zeros 3\<rparr>"

definition add_callback ::
  "'w Se3SpaceMouse \<Rightarrow> string \<Rightarrow> ('w \<Rightarrow> 'w) \<Rightarrow> error + 'w Se3SpaceMouse"
where
  "add_callback self key func =
     (if key \<notin> set [''L'', ''R'', ''LR''] then Inl ValueError
      else Inr (self\<lparr>additional_callbacks := (additional_callbacks self)(key \<mapsto> func)\<rparr>))"

text \<open>
  \<open>advance\<close>. The conversion \<open>Rotation.from_euler("XYZ", v).as_rotvec()\<close> belongs to a
  library outside the repository and is the parameter \<open>euler_to_rotvec\<close>.
\<close>

definition advance ::
  "(pyfloat list \<Rightarrow> pyfloat list) \<Rightarrow> 'w Se3SpaceMouse \<Rightarrow> pyfloat list \<times> bool"
where
  "advance euler_to_rotvec self =
     (delta_pos self @ euler_to_rotvec (delta_rot self), close_gripper self)"

definition cb_dof :: "'w Se3SpaceMouse \<Rightarrow> SpaceNavigator \<Rightarrow> 'w Se3SpaceMouse" where
  "cb_dof self state =
     self\<lparr>delta_pos :=
            [fmul (state_y state) (pos_sensitivity self),
             fmul (fneg (state_x state)) (pos_sensitivity self),
             fmul (state_z state) (pos_sensitivity self)],
          delta_rot :=
            [fmul (fneg (state_roll state)) (rot_sensitivity self),
             fmul (fneg (state_pitch state)) (rot_sensitivity self),
             fmul (fneg (state_yaw state)) (rot_sensitivity self)]\<rparr>"

text \<open>Calling the callback registered under a key, if there is one.\<close>

definition invoke :: "'w Se3SpaceMouse \<Rightarrow> string \<Rightarrow> 'w \<Rightarrow> 'w" where
  "invoke self key w = (case additional_callbacks self key of None \<Rightarrow> w | Some func \<Rightarrow> func w)"

text \<open>
  A method that mutates the adapter and may raise half way: \<open>Raised e a\<close> keeps the
  adapter and the surroundings as they are at the moment of the exception.
\<close>

datatype 'a outcome = Returned 'a | Raised error 'a

fun after :: "'a outcome \<Rightarrow> 'a" where
  "after (Returned a) = a"
| "after (Raised e a) = a"

text \<open>
  \<open>_cb_button\<close>. \<open>buttons[0]\<close> and \<open>buttons[1]\<close> raise \<open>IndexError\<close> on a list that
  is too short; the third test is \<open>all(buttons)\<close>, over the whole list.
\<close>

definition cb_button ::
  "'w Se3SpaceMouse \<Rightarrow> 'w \<Rightarrow> SpaceNavigator \<Rightarrow> bool list \<Rightarrow> ('w Se3SpaceMouse \<times> 'w) outcome"
where
  "cb_button self w state buttons =
     (if length buttons < 1 then Raised IndexError (self, w)
      else
        let (s1, w1) =
              (if buttons ! 0 then (reset self, invoke (reset self) ''L'' w) else (self, w))
        in if length buttons < 2 then Raised IndexError (s1, w1)
           else
             let (s2, w2) =
                   (if buttons ! 1
                    then (s1\<lparr>close_gripper := \<not> close_gripper s1\<rparr>, invoke s1 ''R'' w1)
                    else (s1, w1));
                 w3 = (if list_all (\<lambda>b. b) buttons then invoke s2 ''LR'' w2 else w2)
             in Returned (s2, w3))"

text \<open>
  The calls a client can make on an adapter between two device events. A call to
  \<open>add_callback\<close> that raises leaves the adapter as it was.
\<close>

datatype 'w client_call = CallReset | CallAddCallback string "'w \<Rightarrow> 'w" | CallAdvance

fun apply_call :: "'w Se3SpaceMouse \<Rightarrow> 'w client_call \<Rightarrow> 'w Se3SpaceMouse" where
  "apply_call self CallReset = reset self"
| "apply_call self (CallAddCallback key func) =
     (case add_callback self key func of Inl e \<Rightarrow> self | Inr self' \<Rightarrow> self')"
| "apply_call self CallAdvance = self"

definition apply_calls :: "'w Se3SpaceMouse \<Rightarrow> 'w client_call list \<Rightarrow> 'w Se3SpaceMouse" where
  "apply_calls self cs = foldl apply_call self cs"

text \<open>
  Concrete values for evaluating the adapter: the motion event with the raw axes
  \<open>x = 1\<close>, \<open>y = 2\<close>, \<open>z = 3\<close>, \<open>roll = 0.1\<close>, \<open>pitch = 0.2\<close>, \<open>yaw = 0.3\<close>; a
  callback that appends its name to a log, the log being the surroundings; the adapter
  as the constructor with its default arguments leaves it once the device has opened;
  and that adapter with a logging callback under each of the three keys.
\<close>

definition sample_motion :: SpaceNavigator where
  "sample_motion =
     \<lparr>state_x = decimal 1 0, state_y = decimal 2 0, state_z = decimal 3 0,
      state_roll = decimal 1 1, state_pitch = decimal 2 1, state_yaw = decimal 3 1\<rparr>"

definition log_call :: "string \<Rightarrow> string list \<Rightarrow> string list" where
  "log_call name w = w @ [name]"

definition connected_device :: "string list Se3SpaceMouse" where
  "connected_device =
     \<lparr>pos_sensitivity = decimal 4 1, rot_sensitivity = decimal 8 1, sleep_rate = decimal 1 3,
      close_gripper = False, delta_pos = np_zeros 3, delta_rot = np_zeros 3,
      additional_callbacks = Map.empty,
      thread = Some \<lparr>target = ''_run_device'', daemon = True, started = True\<rparr>\<rparr>"

definition logging_device :: "string list Se3SpaceMouse" where
  "logging_device =
     connected_device\<lparr>additional_callbacks :=
       [''L'' \<mapsto> log_call ''L'', ''R'' \<mapsto> log_call ''R'', ''LR'' \<mapsto> log_call ''LR'']\<rparr>"

section \<open>Facts about the float arithmetic\<close>

lemma ilog2_bounds:
  assumes "2 ^ k \<le> n" "n < 2 ^ Suc k"
  shows "ilog2 n = int k"
  using assms
proof (induction k arbitrary: n)
  case 0
  then show ?case by (simp add: ilog2.simps)
next
  case (Suc k)
  have "2 ^ k \<le> n div 2" using Suc.prems(1) by simp
  moreover have "n div 2 < 2 ^ Suc k" using Suc.prems(2) by simp
  ultimately have "ilog2 (n div 2) = int k" by (rule Suc.IH)
  moreover have "(1::int) \<le> 2 ^ k" by simp
  then have "\<not> n < 2" using Suc.prems(1) by (simp only: power_Suc)
  ultimately show ?case by (subst ilog2.simps) simp
qed

lemma ilog2_one: "ilog2 1 = 0"
  by (simp add: ilog2.simps)

text \<open>The literal \<open>0.25\<close> is a power of two and is represented exactly.\<close>

lemma decimal_quarter: "decimal 25 2 = Finite False 4503599627370496 (- 54)"
  by code_simp

lemma ilog2_scaled:
  assumes "4503599627370496 \<le> m" "m < 9007199254740992"
  shows "ilog2 (4503599627370496 * m) = 104"
  using ilog2_bounds [of 104 "4503599627370496 * m"] assms by simp

lemma flog2_scaled:
  assumes "4503599627370496 \<le> m" "m < 9007199254740992"
  shows "flog2 (4503599627370496 * m) 1 = 104"
  using assms by (simp add: flog2_def ilog2_scaled ilog2_one shift2_def)

lemma round_half_even_scaled: "round_half_even (4503599627370496 * m) 4503599627370496 = m"
  by (simp add: round_half_even_def)

text \<open>
  A quarter of a normal number whose quarter is normal too is computed without rounding:
  the significand stays, the exponent drops by two.
\<close>

lemma fmul_quarter_exact:
  assumes m: "4503599627370496 \<le> m" "m < 9007199254740992" and x: "- 1072 \<le> x" "x \<le> 971"
  shows "fmul (decimal 25 2) (Finite s m x) = Finite s m (x - 2)"
proof -
  have e: "max (104 + (- 54 + x)) (- 1022) = 50 + x" using x by simp
  have "fmul (decimal 25 2) (Finite s m x) =
      round_double (False \<noteq> s) (4503599627370496 * m) 1 (- 54 + x)"
    by (simp only: decimal_quarter fmul.simps)
  also have "\<dots> = Finite s m (x - 2)"
    unfolding round_double_def flog2_scaled [OF m] e
    using m x by (simp add: Let_def shift2_def round_half_even_scaled)
  finally show ?thesis .
qed

section \<open>Properties of the sky light\<close>

lemma select_texture_file_known:
  "sc \<in> {EARTH, MARS, ORBIT} \<Longrightarrow> \<exists>t. select_texture_file ext sc = Some t"
  by (auto simp: select_texture_file_def)

lemma select_texture_file_other:
  "sc \<notin> {EARTH, MARS, ORBIT} \<Longrightarrow> select_texture_file ext sc = None"
  by (cases sc) (simp_all add: select_texture_file_def)

lemma keyword_clash_empty: "\<not> keyword_clash ks []"
  by (simp add: keyword_clash_def)

lemma sky_from_env_cfg_no_clash:
  assumes "select_texture_file ext (scenario env_cfg) = Some t"
    and "\<not> keyword_clash [''intensity'', ''texture_file''] spawn_kwargs"
    and "\<not> keyword_clash [''prim_path'', ''spawn''] kw"
  shows "sky_from_env_cfg ext env_cfg p spawn_kwargs kw =
    Inr (Some \<lparr>prim_path = p,
      spawn = \<lparr>intensity = fmul (decimal 25 2) (light_intensity ext (scenario env_cfg)),
               texture_file = t, spawn_params = spawn_kwargs\<rparr>,
      params = kw\<rparr>)"
  using assms by (simp add: sky_from_env_cfg_def new_DomeLightCfg_def new_AssetBaseCfg_def)

lemma sky_from_env_cfg_spawn_clash:
  assumes "select_texture_file ext (scenario env_cfg) = Some t"
    and "keyword_clash [''intensity'', ''texture_file''] spawn_kwargs"
  shows "sky_from_env_cfg ext env_cfg p spawn_kwargs kw = Inl TypeError"
  using assms by (simp add: sky_from_env_cfg_def new_DomeLightCfg_def)

lemma sky_from_env_cfg_other:
  assumes "select_texture_file ext (scenario env_cfg) = None"
  shows "sky_from_env_cfg ext env_cfg p spawn_kwargs kw = Inr None"
  using assms by (simp add: sky_from_env_cfg_def)

lemma sky_from_env_cfg_Some_D:
  assumes "sky_from_env_cfg ext env_cfg p spawn_kwargs kw = Inr (Some d)"
  shows "intensity (spawn d) = fmul (decimal 25 2) (light_intensity ext (scenario env_cfg))"
  using assms
  by (auto simp: sky_from_env_cfg_def new_DomeLightCfg_def new_AssetBaseCfg_def
      split: option.splits if_splits)

text \<open>
  Claim C1. For every scenario tag, \<open>sky_from_env_cfg\<close> returns a light descriptor when
  the tag is \<open>EARTH\<close>, \<open>MARS\<close> or \<open>ORBIT\<close>, and returns \<open>None\<close>, without raising, for
  any other tag. The first part is stated for the call with the default arguments, and
  for every call whose further keyword arguments repeat none of the keywords that the
  function writes out itself; the second part holds for every call.
\<close>

theorem sky_from_env_cfg_descriptor_or_none:
  "(scenario env_cfg \<in> {EARTH, MARS, ORBIT} \<longrightarrow>
      (\<exists>d. sky_from_env_cfg ext env_cfg default_prim_path [] [] = Inr (Some d))) \<and>
   (scenario env_cfg \<in> {EARTH, MARS, ORBIT} \<and>
    \<not> keyword_clash [''intensity'', ''texture_file''] spawn_kwargs \<and>
    \<not> keyword_clash [''prim_path'', ''spawn''] kw \<longrightarrow>
      (\<exists>d. sky_from_env_cfg ext env_cfg p spawn_kwargs kw = Inr (Some d))) \<and>
   (scenario env_cfg \<notin> {EARTH, MARS, ORBIT} \<longrightarrow>
      sky_from_env_cfg ext env_cfg p spawn_kwargs kw = Inr None)"
proof (intro conjI impI)
  assume "scenario env_cfg \<in> {EARTH, MARS, ORBIT}"
  then obtain t where "select_texture_file ext (scenario env_cfg) = Some t"
    using select_texture_file_known by blast
  then show "\<exists>d. sky_from_env_cfg ext env_cfg default_prim_path [] [] = Inr (Some d)"
    using sky_from_env_cfg_no_clash [OF _ keyword_clash_empty keyword_clash_empty] by blast
next
  assume a: "scenario env_cfg \<in> {EARTH, MARS, ORBIT} \<and>
    \<not> keyword_clash [''intensity'', ''texture_file''] spawn_kwargs \<and>
    \<not> keyword_clash [''prim_path'', ''spawn''] kw"
  then obtain t where "select_texture_file ext (scenario env_cfg) = Some t"
    using select_texture_file_known by blast
  then show "\<exists>d. sky_from_env_cfg ext env_cfg p spawn_kwargs kw = Inr (Some d)"
    using sky_from_env_cfg_no_clash a by blast
next
  assume "scenario env_cfg \<notin> {EARTH, MARS, ORBIT}"
  then show "sky_from_env_cfg ext env_cfg p spawn_kwargs kw = Inr None"
    by (simp add: sky_from_env_cfg_other select_texture_file_other)
qed

text \<open>
  The three cases at concrete calls: \<open>EARTH\<close> with the defaults, \<open>ORBIT\<close> with a
  further spawn parameter, and a tag outside the three.
\<close>

theorem sky_from_env_cfg_descriptor_or_none_witness:
  "(\<exists>d. sky_from_env_cfg sample_externals \<lparr>scenario = EARTH\<rparr> default_prim_path [] [] =
        Inr (Some d)) \<and>
   (\<exists>d. sky_from_env_cfg sample_externals \<lparr>scenario = ORBIT\<rparr> ''/World/dome''
          [(''color'', PyTuple [PyFloat (decimal 1 0), PyFloat (decimal 1 0), PyFloat (decimal 1 0)])]
          [] = Inr (Some d)) \<and>
   sky_from_env_cfg sample_externals \<lparr>scenario = OtherScenario ''MOON''\<rparr> default_prim_path [] [] =
     Inr None"
  using sky_from_env_cfg_descriptor_or_none
          [where env_cfg = "\<lparr>scenario = EARTH\<rparr>" and ext = sample_externals]
        sky_from_env_cfg_descriptor_or_none
          [where env_cfg = "\<lparr>scenario = ORBIT\<rparr>" and ext = sample_externals
             and spawn_kwargs = "[(''color'',
                   PyTuple [PyFloat (decimal 1 0), PyFloat (decimal 1 0), PyFloat (decimal 1 0)])]"
             and kw = "[]" and p = "''/World/dome''"]
        sky_from_env_cfg_descriptor_or_none
          [where env_cfg = "\<lparr>scenario = OtherScenario ''MOON''\<rparr>" and ext = sample_externals
             and spawn_kwargs = "[]" and kw = "[]" and p = default_prim_path]
  by (simp add: keyword_clash_def)

text \<open>
  Claim C2. Whenever \<open>sky_from_env_cfg\<close> returns a descriptor, its intensity is the
  product \<open>0.25 * light_intensity\<close> of the scenario, whatever the further arguments.
  The product is the exact quarter: for a normal \<open>light_intensity\<close> whose quarter is
  normal too, the result has the same sign and significand and the exponent less two.
\<close>

theorem sky_from_env_cfg_intensity:
  assumes "sky_from_env_cfg ext env_cfg p spawn_kwargs kw = Inr (Some d)"
  shows "intensity (spawn d) =
           fmul (decimal 25 2) (light_intensity ext (scenario env_cfg)) \<and>
         (light_intensity ext (scenario env_cfg) = Finite s m x \<and>
          4503599627370496 \<le> m \<and> m < 9007199254740992 \<and> - 1072 \<le> x \<and> x \<le> 971 \<longrightarrow>
            intensity (spawn d) = Finite s m (x - 2))"
proof (intro conjI impI)
  show q: "intensity (spawn d) =
      fmul (decimal 25 2) (light_intensity ext (scenario env_cfg))"
    using assms by (rule sky_from_env_cfg_Some_D)
  assume a: "light_intensity ext (scenario env_cfg) = Finite s m x \<and>
    4503599627370496 \<le> m \<and> m < 9007199254740992 \<and> - 1072 \<le> x \<and> x \<le> 971"
  then have "fmul (decimal 25 2) (Finite s m x) = Finite s m (x - 2)"
    by (intro fmul_quarter_exact) simp_all
  then show "intensity (spawn d) = Finite s m (x - 2)"
    using q a by (simp only:)
qed

lemma decimal_1000: "decimal 1000 0 = Finite False 8796093022208000 (- 43)"
  by code_simp

lemma sample_mars_call:
  "sky_from_env_cfg sample_externals \<lparr>scenario = MARS\<rparr> default_prim_path [] [] =
     Inr (Some \<lparr>prim_path = ''/World/sky'',
       spawn = \<lparr>intensity = fmul (decimal 25 2) (decimal 1000 0),
                texture_file = PyStr ''/opt/srb/assets/srb/hdri/martian_sky_day.hdr'',
                spawn_params = []\<rparr>,
       params = []\<rparr>)"
  by (simp add: sky_from_env_cfg_def select_texture_file_def new_DomeLightCfg_def
      new_AssetBaseCfg_def keyword_clash_def sample_externals_def path_join_def
      default_prim_path_def)

theorem sky_from_env_cfg_intensity_witness:
  "sky_from_env_cfg sample_externals \<lparr>scenario = MARS\<rparr> default_prim_path [] [] =
     Inr (Some \<lparr>prim_path = ''/World/sky'',
       spawn = \<lparr>intensity = fmul (decimal 25 2) (decimal 1000 0),
                texture_file = PyStr ''/opt/srb/assets/srb/hdri/martian_sky_day.hdr'',
                spawn_params = []\<rparr>,
       params = []\<rparr>) \<and>
   fmul (decimal 25 2) (decimal 1000 0) = Finite False 8796093022208000 (- 45) \<and>
   decimal 250 0 = Finite False 8796093022208000 (- 45)"
proof -
  have li: "light_intensity sample_externals (scenario \<lparr>scenario = MARS\<rparr>) =
      Finite False 8796093022208000 (- 43)"
    by (simp add: sample_externals_def decimal_1000)
  have "fmul (decimal 25 2) (decimal 1000 0) = Finite False 8796093022208000 (- 45)"
    using sky_from_env_cfg_intensity [OF sample_mars_call, of False 8796093022208000 "- 43"] li
    by (simp add: decimal_1000)
  moreover have "decimal 250 0 = Finite False 8796093022208000 (- 45)"
    by code_simp
  ultimately show ?thesis
    using sample_mars_call by (simp only: simp_thms)
qed

text \<open>
  Claim C3, as stated: for every known scenario and every map of overrides the call
  builds a descriptor, an override of \<open>intensity\<close> or \<open>texture_file\<close> replacing the
  computed value. It fails for \<open>MARS\<close> with an override of \<open>intensity\<close>: the keyword
  is then given twice and the call raises \<open>TypeError\<close>.
\<close>

theorem sky_from_env_cfg_override_counterexample:
  "sky_from_env_cfg sample_externals \<lparr>scenario = MARS\<rparr> default_prim_path
     [(''intensity'', PyFloat (decimal 5 0))] [] = Inl TypeError"
  by (simp add: sky_from_env_cfg_def select_texture_file_def new_DomeLightCfg_def
      keyword_clash_def)

text \<open>
  Claim C3, amended. For every known scenario and every map of overrides without an
  \<open>intensity\<close> and without a \<open>texture_file\<close> entry, the call builds the descriptor
  from the texture, the intensity and the overrides, each override carried as given next
  to the two; a map of overrides with an \<open>intensity\<close> or a \<open>texture_file\<close> entry makes
  the call raise \<open>TypeError\<close>. (The further keyword arguments of the asset must not
  repeat \<open>prim_path\<close> or \<open>spawn\<close>.)
\<close>

theorem sky_from_env_cfg_overrides:
  assumes "scenario env_cfg \<in> {EARTH, MARS, ORBIT}"
  shows "(\<not> keyword_clash [''intensity'', ''texture_file''] spawn_kwargs \<and>
          \<not> keyword_clash [''prim_path'', ''spawn''] kw \<longrightarrow>
            (\<exists>t. select_texture_file ext (scenario env_cfg) = Some t \<and>
                 sky_from_env_cfg ext env_cfg p spawn_kwargs kw =
                   Inr (Some \<lparr>prim_path = p,
                     spawn = \<lparr>intensity = fmul (decimal 25 2)
                                             (light_intensity ext (scenario env_cfg)),
                              texture_file = t, spawn_params = spawn_kwargs\<rparr>,
                     params = kw\<rparr>))) \<and>
         (keyword_clash [''intensity'', ''texture_file''] spawn_kwargs \<longrightarrow>
            sky_from_env_cfg ext env_cfg p spawn_kwargs kw = Inl TypeError)"
proof -
  obtain t where t: "select_texture_file ext (scenario env_cfg) = Some t"
    using assms select_texture_file_known by blast
  show ?thesis
    using t sky_from_env_cfg_no_clash [OF t] sky_from_env_cfg_spawn_clash [OF t] by blast
qed

theorem sky_from_env_cfg_overrides_witness:
  "sky_from_env_cfg sample_externals \<lparr>scenario = ORBIT\<rparr> ''/World/dome''
     [(''exposure'', PyFloat (decimal 2 0))] [(''class_type'', PyNone)] =
     Inr (Some \<lparr>prim_path = ''/World/dome'',
       spawn = \<lparr>intensity = fmul (decimal 25 2) (decimal 1000 0),
                texture_file = PyStr ''/opt/srb/assets/srb/hdri/low_lunar_orbit.jpg'',
                spawn_params = [(''exposure'', PyFloat (decimal 2 0))]\<rparr>,
       params = [(''class_type'', PyNone)]\<rparr>) \<and>
   sky_from_env_cfg sample_externals \<lparr>scenario = ORBIT\<rparr> ''/World/dome''
     [(''exposure'', PyFloat (decimal 2 0)), (''texture_file'', PyStr ''stars.hdr'')] [] =
     Inl TypeError"
  using sky_from_env_cfg_overrides
          [where env_cfg = "\<lparr>scenario = ORBIT\<rparr>" and ext = sample_externals
             and spawn_kwargs = "[(''exposure'', PyFloat (decimal 2 0))]"
             and kw = "[(''class_type'', PyNone)]" and p = "''/World/dome''"]
        sky_from_env_cfg_overrides
          [where env_cfg = "\<lparr>scenario = ORBIT\<rparr>" and ext = sample_externals
             and spawn_kwargs = "[(''exposure'', PyFloat (decimal 2 0)),
                                  (''texture_file'', PyStr ''stars.hdr'')]"
             and kw = "[]" and p = "''/World/dome''"]
  by (simp add: keyword_clash_def select_texture_file_def sample_externals_def path_join_def)

text \<open>
  Claim C4 says that for \<open>EARTH\<close> the descriptor carries one fixed texture path, a
  string as in the \<open>MARS\<close> and \<open>ORBIT\<close> cases. The code builds the fixed path, but the
  trailing comma of the \<open>EARTH\<close> branch wraps it in a tuple: the texture reference of
  the descriptor is a tuple of one string and not a string, while the other two branches
  give a string.
\<close>

theorem sky_from_env_cfg_earth_texture_is_tuple:
  "sky_from_env_cfg ext \<lparr>scenario = EARTH\<rparr> default_prim_path [] [] =
     Inr (Some \<lparr>prim_path = default_prim_path,
       spawn = \<lparr>intensity = fmul (decimal 25 2) (light_intensity ext EARTH),
                texture_file = PyTuple [PyStr (ISAAC_NUCLEUS_DIR ext @
                  ''/Materials/Textures/Skies/PolyHaven/kloofendal_43d_clear_puresky_4k.hdr'')],
                spawn_params = []\<rparr>,
       params = []\<rparr>) \<and>
   (\<forall>d path. sky_from_env_cfg ext \<lparr>scenario = EARTH\<rparr> p spawn_kwargs kw = Inr (Some d) \<longrightarrow>
      texture_file (spawn d) \<noteq> PyStr path) \<and>
   (\<forall>d tag. tag \<in> {MARS, ORBIT} \<and>
      sky_from_env_cfg ext \<lparr>scenario = tag\<rparr> p spawn_kwargs kw = Inr (Some d) \<longrightarrow>
      (\<exists>path. texture_file (spawn d) = PyStr path))"
  by (auto simp: sky_from_env_cfg_def select_texture_file_def new_DomeLightCfg_def
      new_AssetBaseCfg_def keyword_clash_def split: if_splits)

theorem sky_from_env_cfg_earth_texture_is_tuple_witness:
  "sky_from_env_cfg sample_externals \<lparr>scenario = EARTH\<rparr> default_prim_path [] [] =
     Inr (Some \<lparr>prim_path = ''/World/sky'',
       spawn = \<lparr>intensity = fmul (decimal 25 2) (decimal 1000 0),
                texture_file = PyTuple [PyStr
                  ''omniverse://localhost/NVIDIA/Assets/Isaac/4.2/Isaac/Materials/Textures/Skies/PolyHaven/kloofendal_43d_clear_puresky_4k.hdr''],
                spawn_params = []\<rparr>,
       params = []\<rparr>)"
  using sky_from_env_cfg_earth_texture_is_tuple [where ext = sample_externals]
  by (simp add: sample_externals_def default_prim_path_def)

section \<open>Properties of the adapter\<close>

text \<open>The default rate gives the sleep interval \<open>0.001\<close>.\<close>

lemma default_sleep_rate: "fdiv (decimal 1 0) (decimal 1000 0) = Inr (decimal 1 3)"
  by code_simp

lemma connected_device_init:
  "Se3SpaceMouse_init default_pos_sensitivity default_rot_sensitivity default_rate
     (OpenReturns True) = Inr (connected_device, [])"
  by (simp add: Se3SpaceMouse_init_def default_rate_def default_sleep_rate
      default_pos_sensitivity_def default_rot_sensitivity_def connected_device_def)

text \<open>The six products of the motion event \<open>sample_motion\<close> with the default sensitivities.\<close>

lemma product_y: "fmul (decimal 2 0) (decimal 4 1) = decimal 8 1"
  by code_simp

lemma product_x: "fmul (fneg (decimal 1 0)) (decimal 4 1) = decimal (- 4) 1"
  by code_simp

lemma product_z: "fmul (decimal 3 0) (decimal 4 1) = decimal 12000000000000002 16"
  by code_simp

lemma product_roll: "fmul (fneg (decimal 1 1)) (decimal 8 1) = decimal (- 8000000000000002) 17"
  by code_simp

lemma product_pitch: "fmul (fneg (decimal 2 1)) (decimal 8 1) = decimal (- 16000000000000003) 17"
  by code_simp

lemma product_yaw: "fmul (fneg (decimal 3 1)) (decimal 8 1) = decimal (- 24) 2"
  by code_simp

text \<open>The literals of the rounded products and their neighbours.\<close>

lemma rounded_z: "decimal 12000000000000002 16 \<noteq> decimal 12 1"
  by code_simp

lemma rounded_values:
  "decimal 12 1 = Finite False 5404319552844595 (- 52)"
  "decimal 12000000000000002 16 = Finite False 5404319552844596 (- 52)"
  "decimal (- 8) 2 = Finite True 5764607523034235 (- 56)"
  "decimal (- 8000000000000002) 17 = Finite True 5764607523034236 (- 56)"
  "decimal (- 16) 2 = Finite True 5764607523034235 (- 55)"
  "decimal (- 16000000000000003) 17 = Finite True 5764607523034236 (- 55)"
  by code_simp+


text \<open>
  Claim C5, as stated: with the default sensitivities the motion event \<open>sample_motion\<close>
  sets \<open>delta_position\<close> to exactly \<open>(0.8, -0.4, 1.2)\<close> and \<open>delta_rotation\<close> to
  exactly \<open>(-0.08, -0.16, -0.24)\<close>. Three of the six products are rounded to a float
  other than the one that the claimed literal denotes.
\<close>

theorem cb_dof_claimed_values_counterexample:
  "\<not> (delta_pos (cb_dof connected_device sample_motion) =
        [decimal 8 1, decimal (- 4) 1, decimal 12 1] \<and>
      delta_rot (cb_dof connected_device sample_motion) =
        [decimal (- 8) 2, decimal (- 16) 2, decimal (- 24) 2])"
  by (simp add: cb_dof_def connected_device_def sample_motion_def product_z rounded_z)

text \<open>
  Claim C5, amended. The motion callback sets \<open>delta_position\<close> to \<open>(y, -x, z)\<close>, each
  multiplied by the position sensitivity, and \<open>delta_rotation\<close> to
  \<open>(-roll, -pitch, -yaw)\<close>, each multiplied by the rotation sensitivity, in float
  arithmetic, overwriting the prior values and leaving every other field. For
  \<open>sample_motion\<close> and the default sensitivities the results are
  \<open>(0.8, -0.4, 1.2000000000000002)\<close> and
  \<open>(-0.08000000000000002, -0.16000000000000003, -0.24)\<close>.
\<close>

theorem cb_dof_values:
  "cb_dof self state =
     self\<lparr>delta_pos := [fmul (state_y state) (pos_sensitivity self),
                         fmul (fneg (state_x state)) (pos_sensitivity self),
                         fmul (state_z state) (pos_sensitivity self)],
          delta_rot := [fmul (fneg (state_roll state)) (rot_sensitivity self),
                         fmul (fneg (state_pitch state)) (rot_sensitivity self),
                         fmul (fneg (state_yaw state)) (rot_sensitivity self)]\<rparr> \<and>
   (pos_sensitivity self = default_pos_sensitivity \<and>
    rot_sensitivity self = default_rot_sensitivity \<longrightarrow>
      cb_dof self sample_motion =
        self\<lparr>delta_pos := [decimal 8 1, decimal (- 4) 1, decimal 12000000000000002 16],
             delta_rot := [decimal (- 8000000000000002) 17, decimal (- 16000000000000003) 17,
                            decimal (- 24) 2]\<rparr>)"
  by (simp add: cb_dof_def sample_motion_def default_pos_sensitivity_def
      default_rot_sensitivity_def product_x product_y product_z product_roll product_pitch
      product_yaw)

theorem cb_dof_values_witness:
  "cb_dof (connected_device\<lparr>delta_pos := [decimal 5 0, decimal 5 0, decimal 5 0],
                              close_gripper := True\<rparr>) sample_motion =
     connected_device\<lparr>delta_pos := [decimal 8 1, decimal (- 4) 1, decimal 12000000000000002 16],
                       delta_rot := [decimal (- 8000000000000002) 17,
                                      decimal (- 16000000000000003) 17, decimal (- 24) 2],
                       close_gripper := True\<rparr>"
proof -
  let ?dev = "connected_device\<lparr>delta_pos := [decimal 5 0, decimal 5 0, decimal 5 0],
                               close_gripper := True\<rparr>"
  have "pos_sensitivity ?dev = default_pos_sensitivity \<and>
      rot_sensitivity ?dev = default_rot_sensitivity"
    by (simp add: connected_device_def default_pos_sensitivity_def default_rot_sensitivity_def)
  with cb_dof_values [where self = ?dev and state = sample_motion]
  have "cb_dof ?dev sample_motion =
      ?dev\<lparr>delta_pos := [decimal 8 1, decimal (- 4) 1, decimal 12000000000000002 16],
           delta_rot := [decimal (- 8000000000000002) 17, decimal (- 16000000000000003) 17,
                          decimal (- 24) 2]\<rparr>"
    by blast
  then show ?thesis
    by (simp add: connected_device_def)
qed

lemma reset_fields:
  "delta_pos (reset self) = np_zeros 3"
  "delta_rot (reset self) = np_zeros 3"
  "close_gripper (reset self) = False"
  "additional_callbacks (reset self) = additional_callbacks self"
  "thread (reset self) = thread self"
  by (simp_all add: reset_def)

text \<open>What the button callback does on a list of at least two buttons.\<close>

lemma cb_button_two:
  assumes "2 \<le> length buttons"
  shows "cb_button self w state buttons =
    Returned
      ((if buttons ! 0 then reset self else self)
         \<lparr>close_gripper :=
            (if buttons ! 1 then \<not> (\<not> buttons ! 0 \<and> close_gripper self)
             else \<not> buttons ! 0 \<and> close_gripper self)\<rparr>,
       (if list_all (\<lambda>b. b) buttons then invoke self ''LR'' else id)
         ((if buttons ! 1 then invoke self ''R'' else id)
            ((if buttons ! 0 then invoke self ''L'' else id) w)))"
proof -
  have "buttons \<noteq> []" using assms by auto
  then show ?thesis
    using assms by (simp add: cb_button_def Let_def invoke_def reset_def)
qed

lemma cb_button_one:
  assumes "length buttons = 1"
  shows "cb_button self w state buttons =
    Raised IndexError
      (if buttons ! 0 then (reset self, invoke self ''L'' w) else (self, w))"
proof -
  have "buttons \<noteq> []" using assms by auto
  then show ?thesis
    using assms by (simp add: cb_button_def invoke_def reset_def)
qed

text \<open>
  Claim C6, as stated: after a button event with the left button pressed the two deltas
  are zero and the gripper latch is false, whatever the prior state. With the right
  button pressed in the same event the latch is toggled after the reset and is true.
\<close>

theorem cb_button_left_latch_counterexample:
  "close_gripper (fst (after (cb_button connected_device [] sample_motion [True, True])))"
  by (simp add: cb_button_two reset_fields)

text \<open>
  Claim C6, amended. For every prior adapter state and every button event in which the
  left button (index 0) is pressed, after the button callback has run \<open>delta_position\<close>
  and \<open>delta_rotation\<close> are exactly zero; the gripper latch is false when the right
  button (index 1) is not pressed and true when the right button is pressed in the same
  event.
\<close>

theorem cb_button_left_resets:
  assumes "buttons \<noteq> []" and "buttons ! 0"
  shows "delta_pos (fst (after (cb_button self w state buttons))) = np_zeros 3 \<and>
         delta_rot (fst (after (cb_button self w state buttons))) = np_zeros 3 \<and>
         close_gripper (fst (after (cb_button self w state buttons))) =
           (2 \<le> length buttons \<and> buttons ! 1)"
proof (cases "2 \<le> length buttons")
  case True
  then show ?thesis
    using assms by (simp add: cb_button_two reset_fields)
next
  case False
  moreover have "0 < length buttons"
    using assms(1) by simp
  ultimately have "length buttons = 1"
    by linarith
  then show ?thesis
    using assms by (simp add: cb_button_one reset_fields)
qed

theorem cb_button_left_resets_witness:
  "delta_pos (fst (after (cb_button (cb_dof (connected_device\<lparr>close_gripper := True\<rparr>) sample_motion)
      [] sample_motion [True, False]))) = np_zeros 3 \<and>
   delta_rot (fst (after (cb_button (cb_dof (connected_device\<lparr>close_gripper := True\<rparr>) sample_motion)
      [] sample_motion [True, False]))) = np_zeros 3 \<and>
   \<not> close_gripper (fst (after (cb_button
      (cb_dof (connected_device\<lparr>close_gripper := True\<rparr>) sample_motion)
      [] sample_motion [True, False])))"
  using cb_button_left_resets
          [where buttons = "[True, False]"
             and self = "cb_dof (connected_device\<lparr>close_gripper := True\<rparr>) sample_motion"
             and w = "[]" and state = sample_motion]
  by simp

lemma list_all_two: "length buttons = 2 \<Longrightarrow> list_all (\<lambda>b. b) buttons = (buttons ! 0 \<and> buttons ! 1)"
proof -
  assume "length buttons = 2"
  then obtain a b where "buttons = [a, b]"
    by (cases buttons; cases "tl buttons") auto
  then show ?thesis by auto
qed

lemma list_all_nth: "list_all (\<lambda>b. b) buttons \<Longrightarrow> i < length buttons \<Longrightarrow> buttons ! i"
  by (simp add: list_all_length)

text \<open>
  Claim C7. For every list of at least two buttons in which the left button (index 0)
  and the right button (index 1) are pressed, the button callback calls the callback
  registered for both buttons, if there is one, in addition to the handling of the left
  and of the right button; the three tests are made on every invocation. The code makes
  the three tests one after the other on every invocation, and the first two are the
  ones of the claim, but its third test is \<open>all(buttons)\<close>, over the whole list, where
  the message of \<open>add_callback\<close> calls the key \<open>LR\<close> the right-left buttons and the
  two tests before it read \<open>buttons[0]\<close> and \<open>buttons[1]\<close>. The theorem gives the
  adapter and the surroundings that the callback leaves: the left button resets the
  adapter and calls \<open>L\<close>, the right button then toggles the latch and calls \<open>R\<close>, and
  \<open>LR\<close> is called after them exactly when every button of the list is pressed. For a
  list of two buttons that is when the left and the right one are pressed, as the claim
  says; with the left and the right button pressed and a further button not pressed,
  \<open>LR\<close> is not called.
\<close>

theorem cb_button_branches:
  assumes "2 \<le> length buttons"
  shows "cb_button self w state buttons =
           (let s1 = (if buttons ! 0 then reset self else self);
                s2 = (if buttons ! 1 then s1\<lparr>close_gripper := \<not> close_gripper s1\<rparr> else s1);
                w1 = (if buttons ! 0 then invoke self ''L'' w else w);
                w2 = (if buttons ! 1 then invoke self ''R'' w1 else w1);
                w3 = (if list_all (\<lambda>b. b) buttons then invoke self ''LR'' w2 else w2)
            in Returned (s2, w3)) \<and>
         (list_all (\<lambda>b. b) buttons \<longrightarrow> buttons ! 0 \<and> buttons ! 1) \<and>
         (length buttons = 2 \<longrightarrow> list_all (\<lambda>b. b) buttons = (buttons ! 0 \<and> buttons ! 1)) \<and>
         (buttons ! 0 \<and> buttons ! 1 \<and> \<not> list_all (\<lambda>b. b) buttons \<longrightarrow>
            cb_button self w state buttons =
              Returned ((reset self)\<lparr>close_gripper := True\<rparr>,
                        invoke self ''R'' (invoke self ''L'' w)))"
proof (intro conjI impI)
  show branches: "cb_button self w state buttons =
      (let s1 = (if buttons ! 0 then reset self else self);
           s2 = (if buttons ! 1 then s1\<lparr>close_gripper := \<not> close_gripper s1\<rparr> else s1);
           w1 = (if buttons ! 0 then invoke self ''L'' w else w);
           w2 = (if buttons ! 1 then invoke self ''R'' w1 else w1);
           w3 = (if list_all (\<lambda>b. b) buttons then invoke self ''LR'' w2 else w2)
       in Returned (s2, w3))"
    by (simp add: cb_button_two [OF assms] Let_def reset_def)
  assume "buttons ! 0 \<and> buttons ! 1 \<and> \<not> list_all (\<lambda>b. b) buttons"
  then show "cb_button self w state buttons =
      Returned ((reset self)\<lparr>close_gripper := True\<rparr>, invoke self ''R'' (invoke self ''L'' w))"
    by (simp add: branches Let_def reset_def)
next
  assume a: "list_all (\<lambda>b. b) buttons"
  have "0 < length buttons" using assms by linarith
  with a show "buttons ! 0" by (rule list_all_nth)
next
  assume a: "list_all (\<lambda>b. b) buttons"
  have "1 < length buttons" using assms by linarith
  with a show "buttons ! 1" by (rule list_all_nth)
next
  assume "length buttons = 2"
  then show "list_all (\<lambda>b. b) buttons = (buttons ! 0 \<and> buttons ! 1)"
    by (rule list_all_two)
qed

text \<open>
  The callback at two events, on an adapter that holds a motion, has the latch set and
  has a logging callback under each key. With the left and the right of three buttons
  pressed the adapter is reset, the latch is toggled to true, and the log has \<open>L\<close> and
  \<open>R\<close> but not \<open>LR\<close>, which is registered. With the two of two buttons pressed the
  adapter is the same and the log has all three.
\<close>

theorem cb_button_branches_witness:
  "additional_callbacks logging_device ''LR'' = Some (log_call ''LR'') \<and>
   cb_button (cb_dof (logging_device\<lparr>close_gripper := True\<rparr>) sample_motion) []
       sample_motion [True, True, False] =
     Returned (logging_device\<lparr>close_gripper := True\<rparr>, [''L'', ''R'']) \<and>
   cb_button (cb_dof (logging_device\<lparr>close_gripper := True\<rparr>) sample_motion) []
       sample_motion [True, True] =
     Returned (logging_device\<lparr>close_gripper := True\<rparr>, [''L'', ''R'', ''LR''])"
proof -
  let ?dev = "cb_dof (logging_device\<lparr>close_gripper := True\<rparr>) sample_motion"
  have cbs: "additional_callbacks ?dev =
      [''L'' \<mapsto> log_call ''L'', ''R'' \<mapsto> log_call ''R'', ''LR'' \<mapsto> log_call ''LR'']"
    by (simp add: cb_dof_def logging_device_def)
  have rst: "(reset ?dev)\<lparr>close_gripper := True\<rparr> = logging_device\<lparr>close_gripper := True\<rparr>"
    by (simp add: reset_def cb_dof_def logging_device_def connected_device_def)
  have "cb_button ?dev [] sample_motion [True, True, False] =
      Returned ((reset ?dev)\<lparr>close_gripper := True\<rparr>, invoke ?dev ''R'' (invoke ?dev ''L'' []))"
    using cb_button_branches
            [where buttons = "[True, True, False]" and self = ?dev and w = "[]"
               and state = sample_motion]
    by (simp add: Let_def reset_def)
  then have three: "cb_button ?dev [] sample_motion [True, True, False] =
      Returned (logging_device\<lparr>close_gripper := True\<rparr>, [''L'', ''R''])"
    by (simp add: rst invoke_def cbs log_call_def)
  have "cb_button ?dev [] sample_motion [True, True] =
      Returned ((reset ?dev)\<lparr>close_gripper := True\<rparr>,
        invoke ?dev ''LR'' (invoke ?dev ''R'' (invoke ?dev ''L'' [])))"
    using cb_button_branches
            [where buttons = "[True, True]" and self = ?dev and w = "[]" and state = sample_motion]
    by (simp add: Let_def reset_def)
  then have two: "cb_button ?dev [] sample_motion [True, True] =
      Returned (logging_device\<lparr>close_gripper := True\<rparr>, [''L'', ''R'', ''LR''])"
    by (simp add: rst invoke_def cbs log_call_def)
  show ?thesis
    using three two by (simp add: logging_device_def)
qed

text \<open>
  Claim C8, as stated: \<open>add_callback\<close> succeeds exactly for the keys \<open>left\<close>, \<open>right\<close>
  and \<open>left+right\<close>. The key \<open>left\<close> is rejected: the keys of the code are \<open>L\<close>, \<open>R\<close>
  and \<open>LR\<close>.
\<close>

theorem add_callback_left_counterexample:
  "add_callback connected_device ''left'' (log_call ''left'') = Inl ValueError"
  by (simp add: add_callback_def)

text \<open>
  Claim C8, amended. For every key string, \<open>add_callback(key, action)\<close> succeeds exactly
  when the key is one of \<open>L\<close>, \<open>R\<close> and \<open>LR\<close>; any other key raises \<open>ValueError\<close> and
  leaves the registry of callbacks unchanged, while registering a key that is registered
  already replaces the previous action without an error.
\<close>

theorem add_callback_keys:
  "(key \<in> {''L'', ''R'', ''LR''} \<longrightarrow>
      add_callback self key func =
        Inr (self\<lparr>additional_callbacks := (additional_callbacks self)(key \<mapsto> func)\<rparr>) \<and>
      additional_callbacks (apply_call self (CallAddCallback key func)) key = Some func \<and>
      (\<forall>k. k \<noteq> key \<longrightarrow>
         additional_callbacks (apply_call self (CallAddCallback key func)) k =
         additional_callbacks self k)) \<and>
   (key \<notin> {''L'', ''R'', ''LR''} \<longrightarrow>
      add_callback self key func = Inl ValueError \<and>
      apply_call self (CallAddCallback key func) = self)"
  by (auto simp: add_callback_def)

theorem add_callback_keys_witness:
  "additional_callbacks (apply_call logging_device (CallAddCallback ''R'' (log_call ''again''))) ''R'' =
     Some (log_call ''again'') \<and>
   additional_callbacks (apply_call logging_device (CallAddCallback ''R'' (log_call ''again''))) ''L'' =
     Some (log_call ''L'') \<and>
   add_callback logging_device ''right'' (log_call ''again'') = Inl ValueError \<and>
   apply_call logging_device (CallAddCallback ''right'' (log_call ''again'')) = logging_device"
  using add_callback_keys
          [where key = "''R''" and self = logging_device and func = "log_call ''again''"]
        add_callback_keys
          [where key = "''right''" and self = logging_device and func = "log_call ''again''"]
  by (simp add: logging_device_def)

text \<open>The state of an adapter that no device event has touched.\<close>

lemma apply_call_idle:
  assumes "delta_pos self = np_zeros 3 \<and> delta_rot self = np_zeros 3 \<and> \<not> close_gripper self"
  shows "delta_pos (apply_call self c) = np_zeros 3 \<and>
         delta_rot (apply_call self c) = np_zeros 3 \<and>
         \<not> close_gripper (apply_call self c)"
  using assms by (cases c) (auto simp: reset_def add_callback_def)

lemma apply_calls_idle:
  assumes "delta_pos self = np_zeros 3 \<and> delta_rot self = np_zeros 3 \<and> \<not> close_gripper self"
  shows "delta_pos (apply_calls self cs) = np_zeros 3 \<and>
         delta_rot (apply_calls self cs) = np_zeros 3 \<and>
         \<not> close_gripper (apply_calls self cs)"
  using assms unfolding apply_calls_def
proof (induction cs arbitrary: self)
  case Nil
  then show ?case by simp
next
  case (Cons c cs)
  show ?case
    using Cons.IH [OF apply_call_idle [OF Cons.prems]] by simp
qed

lemma apply_call_thread: "thread (apply_call self c) = thread self"
  by (cases c) (auto simp: reset_def add_callback_def)

lemma apply_calls_thread: "thread (apply_calls self cs) = thread self"
  unfolding apply_calls_def
  by (induction cs arbitrary: self) (simp_all add: apply_call_thread)

lemma fdiv_nonzero:
  assumes "\<forall>t. rate \<noteq> Zero t"
  shows "\<exists>sr. fdiv a rate = Inr sr"
  using assms by (cases "(a, rate)" rule: fdiv.cases) auto

lemma np_zeros_append: "np_zeros 3 @ np_zeros 3 = np_zeros 6"
  by (simp add: np_zeros_def flip: replicate_add)

text \<open>
  Claim C9. If opening the device fails (\<open>open\<close> returns false or raises), the adapter
  has no background thread, one line has gone to the error stream, the constructor has
  returned an adapter, and every later call of \<open>advance\<close>, with any calls of the client
  in between, returns the zero vector of length six and the gripper latch false. The
  constructor reaches the call of \<open>open\<close> when its division by \<open>rate\<close> does not raise;
  the conversion of the library maps the zero Euler angles to the zero rotation vector.
\<close>

theorem failed_open_degrades:
  assumes "\<forall>t. rate \<noteq> Zero t"
    and "opened \<noteq> OpenReturns True"
    and "euler_to_rotvec (np_zeros 3) = np_zeros 3"
  shows "\<exists>(self :: 'w Se3SpaceMouse) line.
           Se3SpaceMouse_init pos rot rate opened = Inr (self, [line]) \<and>
           take (length open_failed_message) line = open_failed_message \<and>
           thread self = None \<and>
           (\<forall>cs. thread (apply_calls self cs) = None \<and>
                 advance euler_to_rotvec (apply_calls self cs) = (np_zeros 6, False))"
proof -
  obtain sr where sr: "fdiv (decimal 1 0) rate = Inr sr"
    using fdiv_nonzero [OF assms(1)] by blast
  define self :: "'w Se3SpaceMouse" where
    "self = \<lparr>pos_sensitivity = pos, rot_sensitivity = rot, sleep_rate = sr,
             close_gripper = False, delta_pos = np_zeros 3, delta_rot = np_zeros 3,
             additional_callbacks = Map.empty, thread = None\<rparr>"
  define line where
    "line = (case opened of OpenReturns b \<Rightarrow> open_failed_message
             | OpenRaises e \<Rightarrow> open_failed_message @ [CHR 0x0A] @ e)"
  have init: "Se3SpaceMouse_init pos rot rate opened = Inr (self, [line])"
    using assms(2) by (cases opened) (auto simp: Se3SpaceMouse_init_def sr self_def line_def)
  have line: "take (length open_failed_message) line = open_failed_message"
    by (cases opened) (simp_all add: line_def)
  have idle: "delta_pos self = np_zeros 3 \<and> delta_rot self = np_zeros 3 \<and> \<not> close_gripper self"
    by (simp add: self_def)
  have th: "thread self = None"
    by (simp add: self_def)
  have "thread (apply_calls self cs) = None \<and>
      advance euler_to_rotvec (apply_calls self cs) = (np_zeros 6, False)" for cs
    using apply_calls_idle [OF idle, of cs] th assms(3)
    by (simp add: advance_def apply_calls_thread np_zeros_append)
  with init line th show ?thesis by blast
qed

theorem failed_open_degrades_witness:
  "\<exists>(self :: string list Se3SpaceMouse) line.
     Se3SpaceMouse_init default_pos_sensitivity default_rot_sensitivity default_rate
       (OpenRaises ''no device'') = Inr (self, [line]) \<and>
     take (length open_failed_message) line = open_failed_message \<and>
     thread self = None \<and>
     (\<forall>cs. thread (apply_calls self cs) = None \<and>
           advance (\<lambda>v. v) (apply_calls self cs) = (np_zeros 6, False))"
proof -
  have "\<forall>t. default_rate \<noteq> Zero t"
    unfolding default_rate_def by code_simp
  moreover have "OpenRaises ''no device'' \<noteq> OpenReturns True"
    by simp
  moreover have "(\<lambda>v. v) (np_zeros 3) = np_zeros 3"
    by simp
  ultimately show ?thesis
    by (rule failed_open_degrades)
qed

text \<open>
  Claim C10. When the device fails to open, the adapter never gets its attribute
  \<open>_thread\<close>, and \<open>__del__\<close> raises \<open>AttributeError\<close>; \<open>__del__\<close> gets past the
  attribute, to the \<open>join\<close> of the thread, only when the device was opened and the
  thread was created. Calls of the client in between change nothing of this.
\<close>

theorem del_raises_iff_open_failed:
  assumes "Se3SpaceMouse_init pos rot rate opened = Inr (self, err)"
  shows "(Se3SpaceMouse_del (apply_calls self cs) = Inl AttributeError) = (opened \<noteq> OpenReturns True) \<and>
         ((\<exists>t. Se3SpaceMouse_del (apply_calls self cs) = Inr t) = (opened = OpenReturns True)) \<and>
         (thread self = None) = (opened \<noteq> OpenReturns True)"
proof -
  have "(thread self = None) = (opened \<noteq> OpenReturns True)"
    using assms
    by (cases opened) (auto simp: Se3SpaceMouse_init_def Let_def split: sum.splits if_splits)
  then show ?thesis
    by (auto simp: Se3SpaceMouse_del_def apply_calls_thread split: option.splits)
qed

lemma failed_device_init:
  "Se3SpaceMouse_init default_pos_sensitivity default_rot_sensitivity default_rate
     (OpenReturns False) =
   Inr (connected_device\<lparr>thread := None\<rparr>, [open_failed_message])"
  by (simp add: Se3SpaceMouse_init_def default_rate_def default_sleep_rate
      default_pos_sensitivity_def default_rot_sensitivity_def connected_device_def)

theorem del_raises_iff_open_failed_witness:
  "Se3SpaceMouse_del (apply_calls (connected_device\<lparr>thread := None\<rparr>)
      [CallAddCallback ''L'' (log_call ''L''), CallReset, CallAdvance]) = Inl AttributeError \<and>
   Se3SpaceMouse_del (apply_calls connected_device [CallReset]) =
     Inr \<lparr>target = ''_run_device'', daemon = True, started = True\<rparr>"
proof -
  have "Se3SpaceMouse_del (apply_calls (connected_device\<lparr>thread := None\<rparr>)
      [CallAddCallback ''L'' (log_call ''L''), CallReset, CallAdvance]) = Inl AttributeError"
    using del_raises_iff_open_failed [OF failed_device_init] by simp
  moreover have "\<exists>t. Se3SpaceMouse_del (apply_calls connected_device [CallReset]) = Inr t"
    using del_raises_iff_open_failed [OF connected_device_init] by simp
  then have "Se3SpaceMouse_del (apply_calls connected_device [CallReset]) =
      Inr \<lparr>target = ''_run_device'', daemon = True, started = True\<rparr>"
    by (auto simp: Se3SpaceMouse_del_def apply_calls_thread connected_device_def
        split: option.splits)
  ultimately show ?thesis by simp
qed

end
